theory Spec2Isabelle
  imports Main "HOL-Library.Sublist"
begin

section \<open>JavaScript values and the runtime\<close>

text \<open>
  A value produced by \<^verbatim>\<open>JSON.parse\<close>, or an object literal handed to
  \<^verbatim>\<open>JSON.stringify\<close>. The type \<open>'n\<close> stands for the JavaScript Number: the
  program never computes with numbers, it only obtains them from \<^verbatim>\<open>parseInt\<close> and
  \<^verbatim>\<open>JSON.parse\<close>, tests them for truthiness and interpolates them into strings.
  An object is the list of its own properties in insertion order, each key once.
\<close>

datatype 'n json =
    JNull
  | JBool bool
  | JNum 'n
  | JStr string
  | JArr "'n json list"
  | JObj "(string \<times> 'n json) list"

text \<open>
  The functions of the JavaScript engine the program calls. A thrown \<^verbatim>\<open>Error\<close> is
  \<open>Inl\<close> of its \<^verbatim>\<open>message\<close>. \<open>nullPropertyError\<close> is the message of the
  \<^verbatim>\<open>TypeError\<close> the engine raises when a property of \<^verbatim>\<open>null\<close> is read,
  \<open>toPrimitiveError\<close> that of the \<^verbatim>\<open>TypeError\<close> it raises when an object cannot be
  converted to a primitive value.
\<close>

record 'n runtime =
  JSON_parse :: "string \<Rightarrow> string + 'n json"
  JSON_stringify :: "'n json \<Rightarrow> string"
  parseInt :: "string \<Rightarrow> 'n"
  Number_ToBoolean :: "'n \<Rightarrow> bool"
  Number_ToString :: "'n \<Rightarrow> string"
  nullPropertyError :: string
  toPrimitiveError :: string

text \<open>
  \<^verbatim>\<open>String.prototype.trim\<close>. Strings are lists of code units in the range of
  \<^typ>\<open>char\<close>; the white space and line terminators in that range are TAB, LF, VT, FF,
  CR, SP and NBSP.
\<close>

definition isWhiteSpace :: "char \<Rightarrow> bool" where
  "isWhiteSpace c \<longleftrightarrow>
     c \<in> set [CHR 0x09, CHR 0x0A, CHR 0x0B, CHR 0x0C, CHR 0x0D, CHR 0x20, CHR 0xA0]"

definition trim :: "string \<Rightarrow> string" where
  "trim s = rev (dropWhile isWhiteSpace (rev (dropWhile isWhiteSpace s)))"

text \<open>\<^verbatim>\<open>Array.isArray\<close>.\<close>

fun isArray :: "'n json \<Rightarrow> bool" where
  "isArray (JArr xs) = True"
| "isArray v = False"

text \<open>
  Truthiness of a value, and of the result of a property read, where \<open>None\<close> is
  \<^verbatim>\<open>undefined\<close>.
\<close>

fun ToBoolean :: "'n runtime \<Rightarrow> 'n json \<Rightarrow> bool" where
  "ToBoolean rt JNull = False"
| "ToBoolean rt (JBool b) = b"
| "ToBoolean rt (JNum n) = Number_ToBoolean rt n"
| "ToBoolean rt (JStr s) = (s \<noteq> [])"
| "ToBoolean rt (JArr xs) = True"
| "ToBoolean rt (JObj kvs) = True"

text \<open>
  The conversion a template literal applies to an interpolated value. A string is taken
  as it is. An object of \<^verbatim>\<open>JSON.parse\<close> has no callable property of its own: without
  an own property \<^verbatim>\<open>toString\<close> it inherits the method that gives
  \<^verbatim>\<open>[object Object]\<close>; with one, of whatever value, that method is hidden, the inherited
  \<^verbatim>\<open>valueOf\<close> gives no primitive (or is hidden too), and the conversion throws. An
  array is converted by \<^verbatim>\<open>join\<close>: its elements from left to right, \<^verbatim>\<open>null\<close> as
  the empty string, with commas between them.
\<close>

fun ToString :: "'n runtime \<Rightarrow> 'n json \<Rightarrow> string + string"
  and joinElements :: "'n runtime \<Rightarrow> 'n json list \<Rightarrow> string + string" where
  "ToString rt JNull = Inr ''null''"
| "ToString rt (JBool b) = Inr (if b then ''true'' else ''false'')"
| "ToString rt (JNum n) = Inr (Number_ToString rt n)"
| "ToString rt (JStr s) = Inr s"
| "ToString rt (JArr xs) = joinElements rt xs"
| "ToString rt (JObj kvs) =
     (if map_of kvs ''toString'' = None then Inr ''[object Object]''
      else Inl (toPrimitiveError rt))"
| "joinElements rt [] = Inr []"
| "joinElements rt (x # xs) =
     (case (if x = JNull then Inr [] else ToString rt x) of
        Inl m \<Rightarrow> Inl m
      | Inr s \<Rightarrow>
          if xs = [] then Inr s
          else (case joinElements rt xs of
                  Inl m \<Rightarrow> Inl m
                | Inr t \<Rightarrow> Inr (s @ '','' @ t)))"

text \<open>
  Reading the property \<^verbatim>\<open>sessionId\<close> of a parsed body: \<^verbatim>\<open>null\<close> has no
  properties and the read throws; an object yields its own property or
  \<^verbatim>\<open>undefined\<close>; numbers, strings, booleans and arrays have no such property.
\<close>

fun getProperty :: "'n runtime \<Rightarrow> 'n json \<Rightarrow> string \<Rightarrow> string + 'n json option" where
  "getProperty rt JNull k = Inl (nullPropertyError rt)"
| "getProperty rt (JObj kvs) k = Inr (map_of kvs k)"
| "getProperty rt v k = Inr None"

text \<open>A status code in a template literal: its decimal digits.\<close>

fun show_nat :: "nat \<Rightarrow> string" where
  "show_nat n =
     (if n < 10 then [''0123456789'' ! n]
      else show_nat (n div 10) @ [''0123456789'' ! (n mod 10)])"

declare show_nat.simps [simp del]

section \<open>HTTP as the program sees it\<close>

record http_request =
  url :: string
  requestMethod :: string
  headers :: "(string \<times> string) list"
  requestBody :: string

text \<open>
  What \<^verbatim>\<open>await fetch(...)\<close> followed by reading the body gives: a rejection with the
  error's message, or a response with its status line, its \<^verbatim>\<open>Content-Type\<close> header
  (if any) and the body text.
\<close>

record http_response =
  status :: nat
  statusText :: string
  contentType :: "string option"
  responseText :: string

datatype fetch_outcome = Rejected string | Fulfilled http_response

definition ok :: "http_response \<Rightarrow> bool" where
  "ok r \<longleftrightarrow> 200 \<le> status r \<and> status r \<le> 299"

section \<open>The client: \<^verbatim>\<open>src/App.tsx\<close>\<close>

datatype userIdType = External | Internal

datatype embedType = Chat | Dashboard | App

text \<open>The React state of the component \<^verbatim>\<open>App\<close>, one field for each \<^verbatim>\<open>useState\<close>.\<close>

record 'n app_state =
  deploymentId :: string
  userIdType :: userIdType
  externalId :: string
  internalId :: string
  embedType :: embedType
  dashboardId :: string
  userAttributes :: string
  loading :: bool
  error :: "string option"
  success :: "string option"
  sessionId :: "'n json option"
  embedUrl :: "string option"
  displayEmbedUrl :: "string option"
  iframeError :: "string option"
  embedAfterGeneration :: bool
  menuCollapsed :: bool

text \<open>
  The module constants of the client: \<^verbatim>\<open>CUBE_API_URL\<close>, read from
  \<^verbatim>\<open>import.meta.env.VITE_CUBE_API_URL\<close>, and \<^verbatim>\<open>LOCAL_SERVER_URL\<close>.
\<close>

record page =
  VITE_CUBE_API_URL :: string
  LOCAL_SERVER_URL :: string

text \<open>
  The checks at the head of \<^verbatim>\<open>generateSession\<close>: the message passed to
  \<^verbatim>\<open>setError\<close> before the early return, or the value of \<^verbatim>\<open>parsedAttributes\<close>
  (\<open>None\<close> is \<^verbatim>\<open>null\<close>).
\<close>

definition validate :: "'n runtime \<Rightarrow> 'n app_state \<Rightarrow> string + 'n json option" where
  "validate rt st =
     (if embedType st = Dashboard \<and> trim (dashboardId st) = [] then
        Inl ''Dashboard Public ID is required for dashboard embedding''
      else if userIdType st = External \<and> trim (externalId st) = [] then
        Inl ''External ID is required''
      else if userIdType st = Internal \<and> trim (internalId st) = [] then
        Inl ''Internal ID (email) is required''
      else if userIdType st = External \<and> trim (userAttributes st) \<noteq> [] then
        (case JSON_parse rt (userAttributes st) of
           Inl m \<Rightarrow> Inl (''Invalid user attributes JSON: '' @ m)
         | Inr v \<Rightarrow>
             if isArray v then Inr (Some v)
             else Inl (''Invalid user attributes JSON: '' @ ''User attributes must be an array''))
      else Inr None)"

text \<open>The object \<^verbatim>\<open>requestBody\<close>, as the list of its properties.\<close>

definition buildRequestBody ::
    "'n runtime \<Rightarrow> 'n app_state \<Rightarrow> 'n json option \<Rightarrow> (string \<times> 'n json) list" where
  "buildRequestBody rt st parsedAttributes =
     [(''deploymentId'', JNum (parseInt rt (deploymentId st)))]
     @ (if userIdType st = External then
          (''externalId'', JStr (externalId st))
          # (case parsedAttributes of Some a \<Rightarrow> [(''userAttributes'', a)] | None \<Rightarrow> [])
        else [(''internalId'', JStr (internalId st))])
     @ (if embedType st = App then [(''creatorMode'', JBool True)] else [])"

definition sessionRequest :: "'n runtime \<Rightarrow> page \<Rightarrow> 'n app_state \<Rightarrow> 'n json option \<Rightarrow> http_request" where
  "sessionRequest rt pg st parsedAttributes =
     \<lparr> url = LOCAL_SERVER_URL pg @ ''/api/v1/embed/generate-session'',
       requestMethod = ''POST'',
       headers = [(''Content-Type'', ''application/json'')],
       requestBody = JSON_stringify rt (JObj (buildRequestBody rt st parsedAttributes)) \<rparr>"

text \<open>
  From the awaited \<^verbatim>\<open>fetch\<close> to \<^verbatim>\<open>newSessionId\<close>: \<open>Inl\<close> is the message of
  the error that reaches the \<^verbatim>\<open>catch\<close> block.
\<close>

definition readSession :: "'n runtime \<Rightarrow> fetch_outcome \<Rightarrow> string + ('n json)" where
  "readSession rt outcome =
     (case outcome of
        Rejected m \<Rightarrow> Inl m
      | Fulfilled sessionResponse \<Rightarrow>
          if \<not> ok sessionResponse then
            Inl (''Failed to generate session: '' @ show_nat (status sessionResponse) @ '' ''
                 @ statusText sessionResponse @ [CHR 0x0A]
                 @ responseText sessionResponse)
          else
            (case JSON_parse rt (responseText sessionResponse) of
               Inl m \<Rightarrow> Inl m
             | Inr sessionData \<Rightarrow>
                 (case getProperty rt sessionData ''sessionId'' of
                    Inl m \<Rightarrow> Inl m
                  | Inr None \<Rightarrow>
                      Inl (''Session ID not found in response: '' @ JSON_stringify rt sessionData)
                  | Inr (Some newSessionId) \<Rightarrow>
                      if \<not> ToBoolean rt newSessionId then
                        Inl (''Session ID not found in response: '' @ JSON_stringify rt sessionData)
                      else Inr newSessionId)))"

text \<open>
  The local \<^verbatim>\<open>url\<close> of \<^verbatim>\<open>generateSession\<close> (\<open>link\<close> below): the template literal of the
  current embed type, or the message of the error its last interpolation throws.
\<close>

definition buildEmbedUrl :: "'n runtime \<Rightarrow> page \<Rightarrow> 'n app_state \<Rightarrow> 'n json \<Rightarrow> string + string" where
  "buildEmbedUrl rt pg st newSessionId =
     (case ToString rt newSessionId of
        Inl m \<Rightarrow> Inl m
      | Inr session \<Rightarrow>
          Inr (if embedType st = Chat then
                 VITE_CUBE_API_URL pg @ ''/embed/d/'' @ deploymentId st @ ''/chat?session=''
                 @ session
               else if embedType st = Dashboard then
                 VITE_CUBE_API_URL pg @ ''/embed/d/'' @ deploymentId st @ ''/dashboard/''
                 @ dashboardId st @ ''?session='' @ session
               else
                 VITE_CUBE_API_URL pg @ ''/embed/d/'' @ deploymentId st @ ''/app?session=''
                 @ session))"

text \<open>
  \<^verbatim>\<open>generateSession(clearErrors)\<close>, run to completion from the state \<open>st\<close> of the
  render that created it. The result is the state after all its \<^verbatim>\<open>setState\<close> calls
  and the list of requests it handed to \<^verbatim>\<open>fetch\<close>. The session id is stored before
  the URL is built, and the URLs before the success message is built, so an error thrown
  by an interpolation leaves what was stored before it.
\<close>

definition generateSession ::
    "'n runtime \<Rightarrow> page \<Rightarrow> (http_request \<Rightarrow> fetch_outcome) \<Rightarrow> bool \<Rightarrow> 'n app_state
     \<Rightarrow> 'n app_state \<times> http_request list" where
  "generateSession rt pg fetch clearErrors st =
     (let st1 = (if clearErrors
                 then st\<lparr>error := None, success := None, embedUrl := None, displayEmbedUrl := None\<rparr>
                 else st)
      in case validate rt st of
           Inl m \<Rightarrow> (st1\<lparr>error := Some m\<rparr>, [])
         | Inr parsedAttributes \<Rightarrow>
             (let req = sessionRequest rt pg st parsedAttributes
              in case readSession rt (fetch req) of
                   Inl m \<Rightarrow> (st1\<lparr>error := Some m, loading := False\<rparr>, [req])
                 | Inr newSessionId \<Rightarrow>
                     (let st2 = st1\<lparr>sessionId := Some newSessionId\<rparr>
                      in case buildEmbedUrl rt pg st newSessionId of
                           Inl m \<Rightarrow> (st2\<lparr>error := Some m, loading := False\<rparr>, [req])
                         | Inr link \<Rightarrow>
                             (let st3 = st2\<lparr>displayEmbedUrl := Some link,
                                            embedUrl := (if embedAfterGeneration st then Some link
                                                         else None),
                                            iframeError := (if embedAfterGeneration st then None
                                                            else iframeError st2)\<rparr>
                              in case ToString rt newSessionId of
                                   Inl m \<Rightarrow> (st3\<lparr>error := Some m, loading := False\<rparr>, [req])
                                 | Inr session \<Rightarrow>
                                     (st3\<lparr>success :=
                                            Some (''Session generated successfully! Session ID: ''
                                                  @ session),
                                          loading := False\<rparr>,
                                      [req])))))"

definition handleSubmit ::
    "'n runtime \<Rightarrow> page \<Rightarrow> (http_request \<Rightarrow> fetch_outcome) \<Rightarrow> 'n app_state
     \<Rightarrow> 'n app_state \<times> http_request list" where
  "handleSubmit rt pg fetch st = generateSession rt pg fetch True st"

definition handleRefresh ::
    "'n runtime \<Rightarrow> page \<Rightarrow> (http_request \<Rightarrow> fetch_outcome) \<Rightarrow> 'n app_state
     \<Rightarrow> 'n app_state \<times> http_request list" where
  "handleRefresh rt pg fetch st =
     (if deploymentId st = [] then
        (st\<lparr>error := Some ''Please fill in Deployment ID before refreshing''\<rparr>, [])
      else if userIdType st = External \<and> externalId st = [] then
        (st\<lparr>error := Some ''Please fill in External ID before refreshing''\<rparr>, [])
      else if userIdType st = Internal \<and> internalId st = [] then
        (st\<lparr>error := Some ''Please fill in Internal ID before refreshing''\<rparr>, [])
      else generateSession rt pg fetch False st)"

section \<open>The relay: \<^verbatim>\<open>server.js\<close>\<close>

text \<open>
  \<^verbatim>\<open>process.env\<close> after \<^verbatim>\<open>dotenv\<close> has run is a map from names to strings.
  \<open>falsy\<close> is the test \<^verbatim>\<open>!x\<close> on such an entry: unset, or the empty string.
\<close>

definition falsy :: "string option \<Rightarrow> bool" where
  "falsy x = (case x of None \<Rightarrow> True | Some v \<Rightarrow> v = [])"

text \<open>\<^verbatim>\<open>process.env.PORT || 3001\<close> is the string of the environment or the number 3001.\<close>

datatype port = PortEnv string | PortDefault nat

record server_config =
  PORT :: port
  CUBE_API_URL :: string
  API_KEY :: string

text \<open>
  The top of the module runs to \<^verbatim>\<open>process.exit(1)\<close>, with the lines written by
  \<^verbatim>\<open>console.error\<close>, or goes on to register the routes with its three constants.
\<close>

datatype startup_result = Exit "string list" nat | Started server_config

definition startup :: "(string \<rightharpoonup> string) \<Rightarrow> startup_result" where
  "startup env =
     (let port = (if falsy (env ''PORT'') then PortDefault 3001
                  else PortEnv (case env ''PORT'' of Some p \<Rightarrow> p | None \<Rightarrow> []))
      in if falsy (env ''API_KEY'') then
           Exit
             [''ERROR: API_KEY environment variable is required'',
              ''Please set it in a .env file or as an environment variable:'',
              ''  Create a .env file with: API_KEY=your-api-key-here'',
              ''  Or set it inline: API_KEY=your-api-key-here yarn start''] 1
         else if falsy (env ''CUBE_API_URL'') then
           Exit
             [''ERROR: CUBE_API_URL environment variable is required'',
              ''Please set it in a .env file or as an environment variable:'',
              ''  Create a .env file with: CUBE_API_URL=https://your-cube-instance.com'',
              ''  Or set it inline: CUBE_API_URL=https://your-cube-instance.com yarn start''] 1
         else
           Started \<lparr> PORT = port,
                     CUBE_API_URL = (case env ''CUBE_API_URL'' of Some u \<Rightarrow> u | None \<Rightarrow> []),
                     API_KEY = (case env ''API_KEY'' of Some k \<Rightarrow> k | None \<Rightarrow> []) \<rparr>)"

text \<open>
  What the handler writes to \<^verbatim>\<open>res\<close>: the status, the headers it sets itself, and
  the argument of \<^verbatim>\<open>res.send\<close> (a text) or of \<^verbatim>\<open>res.json\<close> (an object).
\<close>

datatype 'n res_body = Send string | Json "'n json"

record 'n express_response =
  res_status :: nat
  res_headers :: "(string \<times> string) list"
  res_body :: "'n res_body"

text \<open>The request the handler passes to \<^verbatim>\<open>fetch\<close>, for the parsed body \<^verbatim>\<open>req.body\<close>.\<close>

definition upstreamRequest :: "'n runtime \<Rightarrow> server_config \<Rightarrow> 'n json \<Rightarrow> http_request" where
  "upstreamRequest rt cfg body =
     \<lparr> url = CUBE_API_URL cfg @ ''/api/v1/embed/generate-session'',
       requestMethod = ''POST'',
       headers = [(''Content-Type'', ''application/json''),
                  (''Authorization'', ''Api-Key '' @ API_KEY cfg)],
       requestBody = JSON_stringify rt body \<rparr>"

text \<open>
  The handler of \<^verbatim>\<open>POST /api/v1/embed/generate-session\<close>, on \<^verbatim>\<open>req.body\<close> as
  \<^verbatim>\<open>express.json()\<close> left it. \<open>Rejected\<close> stands for an exception of either
  \<^verbatim>\<open>await\<close> in the \<^verbatim>\<open>try\<close> block. The result is the response and the list
  of calls of \<^verbatim>\<open>fetch\<close>.
\<close>

definition generateSessionHandler ::
    "'n runtime \<Rightarrow> server_config \<Rightarrow> (http_request \<Rightarrow> fetch_outcome) \<Rightarrow> 'n json
     \<Rightarrow> 'n express_response \<times> http_request list" where
  "generateSessionHandler rt cfg fetch body =
     (let upstream = upstreamRequest rt cfg body
      in case fetch upstream of
           Fulfilled response \<Rightarrow>
             (\<lparr> res_status = status response,
                res_headers =
                  [(''Content-Type'',
                    if falsy (contentType response) then ''application/json''
                    else (case contentType response of Some c \<Rightarrow> c | None \<Rightarrow> []))],
                res_body = Send (responseText response) \<rparr>,
              [upstream])
         | Rejected m \<Rightarrow>
             (\<lparr> res_status = 500,
                res_headers = [],
                res_body = Json (JObj [(''error'', JStr ''Failed to proxy request''),
                                       (''message'', JStr m)]) \<rparr>,
              [upstream]))"


definition isHttpWhitespace :: "char \<Rightarrow> bool" where
  "isHttpWhitespace c \<longleftrightarrow> c \<in> set [CHR 0x09, CHR 0x0A, CHR 0x0D, CHR 0x20]"









section \<open>Persisted configuration\<close>

text \<open>
  \<^verbatim>\<open>localStorage\<close>: either the browser denies access and every call throws, or it
  is a map from keys to strings.
\<close>

datatype localStorage = Denied | Items "string \<rightharpoonup> string"

fun getItem :: "localStorage \<Rightarrow> string \<Rightarrow> unit + string option" where
  "getItem Denied k = Inl ()"
| "getItem (Items m) k = Inr (m k)"

fun setItem :: "localStorage \<Rightarrow> string \<Rightarrow> string \<Rightarrow> unit + localStorage" where
  "setItem Denied k v = Inl ()"
| "setItem (Items m) k v = Inr (Items (m(k \<mapsto> v)))"

definition STORAGE_KEY :: string where
  "STORAGE_KEY = ''cube-embedding-config''"

text \<open>
  \<^verbatim>\<open>Partial<SavedConfig>\<close>: every property may be missing. The type \<open>'e\<close> is that
  of the property \<^verbatim>\<open>embedType\<close>: in a stored text it is one of the three current
  values or the \<^verbatim>\<open>'home'\<close> written by earlier versions.
\<close>

datatype stored_embedType = Current embedType | Home

record 'e partial_config =
  saved_deploymentId :: "string option"
  saved_userIdType :: "userIdType option"
  saved_externalId :: "string option"
  saved_internalId :: "string option"
  saved_embedType :: "'e option"
  saved_dashboardId :: "string option"
  saved_userAttributes :: "string option"
  saved_embedAfterGeneration :: "bool option"
  saved_menuCollapsed :: "bool option"

text \<open>
  \<^verbatim>\<open>JSON.stringify\<close> and \<^verbatim>\<open>JSON.parse\<close> at the type of the configuration
  object. \<open>Inl\<close> of \<open>parseConfig\<close>: the text is not JSON, or it is the text of
  \<^verbatim>\<open>null\<close>, whose property \<^verbatim>\<open>embedType\<close> cannot be read.
\<close>

record config_json =
  stringifyConfig :: "stored_embedType partial_config \<Rightarrow> string"
  parseConfig :: "string \<Rightarrow> string + stored_embedType partial_config"

definition emptyConfig :: "'e partial_config" where
  "emptyConfig =
     \<lparr> saved_deploymentId = None, saved_userIdType = None, saved_externalId = None,
       saved_internalId = None, saved_embedType = None, saved_dashboardId = None,
       saved_userAttributes = None, saved_embedAfterGeneration = None,
       saved_menuCollapsed = None \<rparr>"

text \<open>The assignment \<^verbatim>\<open>config.embedType = 'app'\<close> under its test.\<close>

definition migrate :: "stored_embedType partial_config \<Rightarrow> embedType partial_config" where
  "migrate config =
     \<lparr> saved_deploymentId = saved_deploymentId config,
       saved_userIdType = saved_userIdType config,
       saved_externalId = saved_externalId config,
       saved_internalId = saved_internalId config,
       saved_embedType =
         (case saved_embedType config of
            None \<Rightarrow> None
          | Some Home \<Rightarrow> Some App
          | Some (Current e) \<Rightarrow> Some e),
       saved_dashboardId = saved_dashboardId config,
       saved_userAttributes = saved_userAttributes config,
       saved_embedAfterGeneration = saved_embedAfterGeneration config,
       saved_menuCollapsed = saved_menuCollapsed config \<rparr>"

definition loadSavedConfig :: "config_json \<Rightarrow> localStorage \<Rightarrow> embedType partial_config" where
  "loadSavedConfig cj storage =
     (case getItem storage STORAGE_KEY of
        Inl _ \<Rightarrow> emptyConfig
      | Inr None \<Rightarrow> emptyConfig
      | Inr (Some saved) \<Rightarrow>
          if saved = [] then emptyConfig
          else (case parseConfig cj saved of
                  Inl _ \<Rightarrow> emptyConfig
                | Inr config \<Rightarrow> migrate config))"

text \<open>
  \<^verbatim>\<open>x || d\<close> on an optional string, and \<^verbatim>\<open>x ?? d\<close>. The values of the two
  enumerations are non-empty strings, so that \<^verbatim>\<open>||\<close> and \<^verbatim>\<open>??\<close> agree on them.
\<close>

definition orElse :: "string option \<Rightarrow> string \<Rightarrow> string" where
  "orElse x d = (case x of None \<Rightarrow> d | Some s \<Rightarrow> if s = [] then d else s)"

definition nullish :: "'a option \<Rightarrow> 'a \<Rightarrow> 'a" where
  "nullish x d = (case x of None \<Rightarrow> d | Some v \<Rightarrow> v)"

text \<open>The initial values of the \<^verbatim>\<open>useState\<close> calls, from \<^verbatim>\<open>savedConfig\<close>.\<close>

definition initialState :: "embedType partial_config \<Rightarrow> 'n app_state" where
  "initialState savedConfig =
     \<lparr> deploymentId = orElse (saved_deploymentId savedConfig) [],
       userIdType = nullish (saved_userIdType savedConfig) External,
       externalId = orElse (saved_externalId savedConfig) ''test-user-123'',
       internalId = orElse (saved_internalId savedConfig) [],
       embedType = nullish (saved_embedType savedConfig) Chat,
       dashboardId = orElse (saved_dashboardId savedConfig) [],
       userAttributes = orElse (saved_userAttributes savedConfig) [],
       loading = False,
       error = None,
       success = None,
       sessionId = None,
       embedUrl = None,
       displayEmbedUrl = None,
       iframeError = None,
       embedAfterGeneration = nullish (saved_embedAfterGeneration savedConfig) True,
       menuCollapsed = nullish (saved_menuCollapsed savedConfig) False \<rparr>"

text \<open>The object \<^verbatim>\<open>config\<close> built by the saving effect.\<close>

definition configOf :: "'n app_state \<Rightarrow> stored_embedType partial_config" where
  "configOf st =
     \<lparr> saved_deploymentId = Some (deploymentId st),
       saved_userIdType = Some (userIdType st),
       saved_externalId = Some (externalId st),
       saved_internalId = Some (internalId st),
       saved_embedType = Some (Current (embedType st)),
       saved_dashboardId = Some (dashboardId st),
       saved_userAttributes = Some (userAttributes st),
       saved_embedAfterGeneration = Some (embedAfterGeneration st),
       saved_menuCollapsed = Some (menuCollapsed st) \<rparr>"

text \<open>The saving effect: a failure of \<^verbatim>\<open>setItem\<close> is logged and leaves the storage.\<close>

definition saveConfig :: "config_json \<Rightarrow> 'n app_state \<Rightarrow> localStorage \<Rightarrow> localStorage" where
  "saveConfig cj st storage =
     (case setItem storage STORAGE_KEY (stringifyConfig cj (configOf st)) of
        Inl _ \<Rightarrow> storage
      | Inr storage' \<Rightarrow> storage')"

text \<open>The next launch: the state the component mounts with.\<close>

definition mount :: "config_json \<Rightarrow> localStorage \<Rightarrow> 'n app_state" where
  "mount cj storage = initialState (loadSavedConfig cj storage)"

section \<open>Example inputs\<close>

text \<open>
  A runtime over numbers \<open>nat option\<close> (\<open>None\<close> is \<^verbatim>\<open>NaN\<close>) whose
  \<^verbatim>\<open>JSON.parse\<close> and \<^verbatim>\<open>JSON.stringify\<close> are given by a table of texts and their
  values, enough for the inputs below (a text outside the table is rejected), with the
  messages V8 gives for a property read on \<^verbatim>\<open>null\<close> and for an object without a
  primitive value. Then a page, the state of a first
  launch with deployment 32 entered, an upstream or relay that answers every request with
  a given status and body, and states that differ from the first in a few fields.
\<close>

definition demoTexts :: "(string \<times> nat option json) list" where
  \<open>demoTexts =
     [(''{"sessionId":"abc123"}'', JObj [(''sessionId'', JStr ''abc123'')]),
      (''null'', JNull),
      (''{}'', JObj []),
      (''{"error":"Invalid API key"}'', JObj [(''error'', JStr ''Invalid API key'')]),
      (''{"deploymentId":12345678901234567000}'',
         JObj [(''deploymentId'', JNum (Some 12345678901234567168))]),
      (''{"deploymentId":12345678901234567890}'',
         JObj [(''deploymentId'', JNum (Some 12345678901234567168))]),
      (''{"deploymentId":32,"externalId":"test-user-123"}'',
         JObj [(''deploymentId'', JNum (Some 32)), (''externalId'', JStr ''test-user-123'')]),
      (''{"deploymentId":32,"internalId":"ann@example.com","creatorMode":true}'',
         JObj [(''deploymentId'', JNum (Some 32)), (''internalId'', JStr ''ann@example.com''),
               (''creatorMode'', JBool True)])]\<close>

definition demoRuntime :: "nat option runtime" where
  "demoRuntime =
     \<lparr> JSON_parse = (\<lambda>s. case map_of demoTexts s of
                             Some v \<Rightarrow> Inr v
                           | None \<Rightarrow> Inl ''Unexpected token''),
       JSON_stringify = (\<lambda>v. case map_of (map (\<lambda>(s, w). (w, s)) demoTexts) v of
                                 Some s \<Rightarrow> s
                               | None \<Rightarrow> ''{}''),
       parseInt = (\<lambda>s. if s = ''32'' then Some 32 else None),
       Number_ToBoolean = (\<lambda>n. n \<noteq> None \<and> n \<noteq> Some 0),
       Number_ToString = (\<lambda>n. case n of None \<Rightarrow> ''NaN'' | Some k \<Rightarrow> show_nat k),
       nullPropertyError = ''Cannot read properties of null (reading 'sessionId')'',
       toPrimitiveError = ''Cannot convert object to primitive value'' \<rparr>"

definition demoPage :: page where
  "demoPage = \<lparr> VITE_CUBE_API_URL = ''https://cube.example.com'',
                LOCAL_SERVER_URL = ''http://localhost:3001'' \<rparr>"

definition demoState :: "nat option app_state" where
  "demoState = (initialState emptyConfig)\<lparr>deploymentId := ''32''\<rparr>"

definition respond :: "nat \<Rightarrow> string \<Rightarrow> string \<Rightarrow> http_request \<Rightarrow> fetch_outcome" where
  "respond code reason body req =
     Fulfilled \<lparr> status = code, statusText = reason,
                 contentType = Some ''application/json'', responseText = body \<rparr>"

definition internalState :: "nat option app_state" where
  "internalState =
     demoState\<lparr>userIdType := Internal, internalId := ''ann@example.com'',
               userAttributes := ''[{name:city}]'', embedType := App\<rparr>"

definition dashboardState :: "nat option app_state" where
  "dashboardState =
     demoState\<lparr>embedType := Dashboard,
               embedUrl := Some ''https://cube.example.com/embed/d/32/chat?session=abc123'',
               displayEmbedUrl := Some ''https://cube.example.com/embed/d/32/chat?session=abc123''\<rparr>"



definition blankState :: "nat option app_state" where
  "blankState = dashboardState\<lparr>deploymentId := []\<rparr>"

text \<open>Environments of the relay process, and a configuration it starts with.\<close>

definition envWithoutPort :: "string \<rightharpoonup> string" where
  "envWithoutPort = [''API_KEY'' \<mapsto> ''secret-key'', ''CUBE_API_URL'' \<mapsto> ''https://cube.example.com'']"

definition envWithoutUrl :: "string \<rightharpoonup> string" where
  "envWithoutUrl = [''API_KEY'' \<mapsto> ''secret-key'', ''PORT'' \<mapsto> ''8080'']"

definition envWithoutKey :: "string \<rightharpoonup> string" where
  "envWithoutKey = [''API_KEY'' \<mapsto> [], ''CUBE_API_URL'' \<mapsto> ''https://cube.example.com'']"


definition demoBody :: "nat option json" where
  "demoBody = JObj [(''deploymentId'', JNum (Some 32)), (''externalId'', JStr ''test-user-123'')]"




text \<open>
  An instance of the parameter \<open>fetch\<close> of the handler: the \<^verbatim>\<open>fetch\<close> of Node.js
  builds the headers of the request before it sends anything. It strips leading and
  trailing HTTP white space from each value, and a value that then still holds NUL, LF
  or CR makes it reject with a \<^verbatim>\<open>TypeError\<close> whose message quotes the value.
  Otherwise the request goes to the network.
\<close>

definition headerValueNormalize :: "string \<Rightarrow> string" where
  "headerValueNormalize v = rev (dropWhile isHttpWhitespace (rev (dropWhile isHttpWhitespace v)))"

definition isValidHeaderValue :: "string \<Rightarrow> bool" where
  "isValidHeaderValue v \<longleftrightarrow> list_all (\<lambda>c. c \<notin> set [CHR 0x00, CHR 0x0A, CHR 0x0D]) v"

definition nodeFetch :: "(http_request \<Rightarrow> fetch_outcome) \<Rightarrow> http_request \<Rightarrow> fetch_outcome" where
  \<open>nodeFetch network req =
     (case filter (\<lambda>(name, v). \<not> isValidHeaderValue (headerValueNormalize v)) (headers req) of
        [] \<Rightarrow> network req
      | (name, v) # others \<Rightarrow>
          Rejected (''Headers.append: "'' @ headerValueNormalize v
                    @ ''" is an invalid header value.''))\<close>

text \<open>A key of two lines, as a quoted value of a \<^verbatim>\<open>.env\<close> file can be.\<close>

definition twoLineKey :: string where
  "twoLineKey = ''secret'' @ [CHR 0x0A] @ ''key''"

definition twoLineKeyConfig :: server_config where
  "twoLineKeyConfig = \<lparr> PORT = PortDefault 3001, CUBE_API_URL = ''https://cube.example.com'',
                        API_KEY = twoLineKey \<rparr>"

text \<open>
  A state in which the internal identity is in use and the external id field has been
  emptied, the text \<^verbatim>\<open>JSON.stringify\<close> gives for its configuration, and
  \<^verbatim>\<open>JSON.stringify\<close> and \<^verbatim>\<open>JSON.parse\<close> on that configuration and that text.
\<close>

definition clearedState :: "nat option app_state" where
  "clearedState = demoState\<lparr>userIdType := Internal, externalId := [],
                            internalId := ''ann@example.com''\<rparr>"

definition clearedText :: string where
  \<open>clearedText = ''{"deploymentId":"32","userIdType":"internal","externalId":"",''
     @ ''"internalId":"ann@example.com","embedType":"chat","dashboardId":"",''
     @ ''"userAttributes":"","embedAfterGeneration":true,"menuCollapsed":false}''\<close>

definition tableJson :: config_json where
  \<open>tableJson =
     \<lparr> stringifyConfig = (\<lambda>config. if config = configOf clearedState then clearedText else ''{}''),
       parseConfig = (\<lambda>saved. if saved = clearedText then Inr (configOf clearedState)
                               else if saved = ''{}'' then Inr emptyConfig
                               else Inl ''Unexpected token'') \<rparr>\<close>

section \<open>The generate flow, case by case\<close>

lemma generateSession_invalid:
  assumes "validate rt st = Inl m"
  shows "generateSession rt pg fetch clearErrors st =
           ((if clearErrors
             then st\<lparr>error := None, success := None, embedUrl := None, displayEmbedUrl := None\<rparr>
             else st)\<lparr>error := Some m\<rparr>, [])"
  using assms by (simp add: generateSession_def)

lemma generateSession_requests:
  assumes "validate rt st = Inr parsedAttributes"
  shows "snd (generateSession rt pg fetch clearErrors st) = [sessionRequest rt pg st parsedAttributes]"
  using assms by (simp add: generateSession_def Let_def split: sum.split)

lemma buildEmbedUrl_Inr:
  assumes "ToString rt newSessionId = Inr session"
  shows "buildEmbedUrl rt pg st newSessionId =
           Inr (case embedType st of
                  Chat \<Rightarrow> VITE_CUBE_API_URL pg @ ''/embed/d/'' @ deploymentId st
                           @ ''/chat?session='' @ session
                | Dashboard \<Rightarrow> VITE_CUBE_API_URL pg @ ''/embed/d/'' @ deploymentId st
                           @ ''/dashboard/'' @ dashboardId st @ ''?session='' @ session
                | App \<Rightarrow> VITE_CUBE_API_URL pg @ ''/embed/d/'' @ deploymentId st
                           @ ''/app?session='' @ session)"
  using assms by (cases "embedType st") (simp_all add: buildEmbedUrl_def)

lemma buildEmbedUrl_Inl:
  assumes "ToString rt newSessionId = Inl m"
  shows "buildEmbedUrl rt pg st newSessionId = Inl m"
  using assms by (simp add: buildEmbedUrl_def)

lemma generateSession_success:
  assumes "validate rt st = Inr parsedAttributes"
    and "readSession rt (fetch (sessionRequest rt pg st parsedAttributes)) = Inr newSessionId"
    and "ToString rt newSessionId = Inr session"
    and "buildEmbedUrl rt pg st newSessionId = Inr link"
  shows "fst (generateSession rt pg fetch clearErrors st) =
           (if clearErrors
            then st\<lparr>error := None, success := None, embedUrl := None, displayEmbedUrl := None\<rparr>
            else st)
           \<lparr>sessionId := Some newSessionId,
            displayEmbedUrl := Some link,
            embedUrl := (if embedAfterGeneration st then Some link else None),
            iframeError := (if embedAfterGeneration st then None else iframeError st),
            success := Some (''Session generated successfully! Session ID: '' @ session),
            loading := False\<rparr>"
  using assms by (simp add: generateSession_def Let_def)

text \<open>
  A session id that cannot be interpolated: it has been stored, the error is the
  engine's message, and no URL and no success message is set.
\<close>

lemma generateSession_interpolation_error:
  assumes "validate rt st = Inr parsedAttributes"
    and "readSession rt (fetch (sessionRequest rt pg st parsedAttributes)) = Inr newSessionId"
    and "ToString rt newSessionId = Inl m"
  shows "fst (generateSession rt pg fetch clearErrors st) =
           (if clearErrors
            then st\<lparr>error := None, success := None, embedUrl := None, displayEmbedUrl := None\<rparr>
            else st)
           \<lparr>sessionId := Some newSessionId, error := Some m, loading := False\<rparr>"
  using assms by (simp add: generateSession_def Let_def buildEmbedUrl_Inl)

lemma generateSession_failure:
  assumes "validate rt st = Inr parsedAttributes"
    and "readSession rt (fetch (sessionRequest rt pg st parsedAttributes)) = Inl m"
  shows "fst (generateSession rt pg fetch clearErrors st) =
           (if clearErrors
            then st\<lparr>error := None, success := None, embedUrl := None, displayEmbedUrl := None\<rparr>
            else st)\<lparr>error := Some m, loading := False\<rparr>"
  using assms by (simp add: generateSession_def Let_def)

lemma demo_validate: "validate demoRuntime demoState = Inr None"
  by (simp add: validate_def demoState_def initialState_def emptyConfig_def orElse_def
      nullish_def trim_def isWhiteSpace_def)

lemma demo_request:
  \<open>sessionRequest demoRuntime demoPage demoState None =
     \<lparr> url = ''http://localhost:3001/api/v1/embed/generate-session'', requestMethod = ''POST'',
       headers = [(''Content-Type'', ''application/json'')],
       requestBody = ''{"deploymentId":32,"externalId":"test-user-123"}'' \<rparr>\<close>
  by (simp add: sessionRequest_def buildRequestBody_def demoRuntime_def demoTexts_def
      demoPage_def demoState_def initialState_def emptyConfig_def orElse_def nullish_def)

lemma demo_session:
  \<open>readSession demoRuntime (respond 200 ''OK'' ''{"sessionId":"abc123"}'' req) = Inr (JStr ''abc123'')\<close>
  by (simp add: readSession_def respond_def ok_def demoRuntime_def demoTexts_def)

section \<open>Embed URL\<close>

lemma ToString_string: "ToString rt (JStr s) = Inr s"
  by simp

lemma ToString_plain_object:
  "ToString rt (JObj kvs) = Inr ''[object Object]'' \<longleftrightarrow> map_of kvs ''toString'' = None"
  by simp

text \<open>
  C1. A generation is successful when the local checks pass, the response yields a session
  id and the interpolation of that id yields a text, which for a string id is the id
  itself. Then the stored session id is the \<^verbatim>\<open>sessionId\<close> of the response, the
  displayed URL is the base URL followed by
  \<^verbatim>\<open>/embed/d/{deploymentId}/chat?session={sessionId}\<close> for chat,
  \<^verbatim>\<open>/embed/d/{deploymentId}/dashboard/{dashboardId}?session={sessionId}\<close> for dashboard and
  \<^verbatim>\<open>/embed/d/{deploymentId}/app?session={sessionId}\<close> for app, the iframe gets the same URL
  when embedding is enabled, and the success message names the id.
\<close>

theorem embed_url_shape:
  assumes "validate rt st = Inr parsedAttributes"
    and "readSession rt (fetch (sessionRequest rt pg st parsedAttributes)) = Inr newSessionId"
    and "ToString rt newSessionId = Inr session"
  shows "sessionId (fst (generateSession rt pg fetch clearErrors st)) = Some newSessionId
       \<and> displayEmbedUrl (fst (generateSession rt pg fetch clearErrors st)) =
           Some (case embedType st of
                   Chat \<Rightarrow> VITE_CUBE_API_URL pg @ ''/embed/d/'' @ deploymentId st
                            @ ''/chat?session='' @ session
                 | Dashboard \<Rightarrow> VITE_CUBE_API_URL pg @ ''/embed/d/'' @ deploymentId st
                            @ ''/dashboard/'' @ dashboardId st
                            @ ''?session='' @ session
                 | App \<Rightarrow> VITE_CUBE_API_URL pg @ ''/embed/d/'' @ deploymentId st
                            @ ''/app?session='' @ session)
       \<and> embedUrl (fst (generateSession rt pg fetch clearErrors st)) =
           (if embedAfterGeneration st
            then displayEmbedUrl (fst (generateSession rt pg fetch clearErrors st))
            else None)
       \<and> success (fst (generateSession rt pg fetch clearErrors st)) =
           Some (''Session generated successfully! Session ID: '' @ session)
       \<and> (\<forall>s. newSessionId = JStr s \<longrightarrow> session = s)"
proof -
  note url = buildEmbedUrl_Inr [OF assms(3), of pg st]
  have "\<forall>s. newSessionId = JStr s \<longrightarrow> session = s"
    using assms(3) by auto
  then show ?thesis
    by (simp add: generateSession_success [where fetch = fetch, OF assms(1,2,3) url])
qed

text \<open>
  The case of the specification: session id \<^verbatim>\<open>abc123\<close>, deployment \<^verbatim>\<open>32\<close>, chat.
\<close>

theorem embed_url_shape_witness:
  \<open>validate demoRuntime demoState = Inr None
   \<and> readSession demoRuntime
        (respond 200 ''OK'' ''{"sessionId":"abc123"}'' (sessionRequest demoRuntime demoPage demoState None))
       = Inr (JStr ''abc123'')
   \<and> ToString demoRuntime (JStr ''abc123'') = Inr ''abc123''
   \<and> deploymentId demoState = ''32'' \<and> embedType demoState = Chat
   \<and> displayEmbedUrl (fst (generateSession demoRuntime demoPage
         (respond 200 ''OK'' ''{"sessionId":"abc123"}'') True demoState))
       = Some (VITE_CUBE_API_URL demoPage @ ''/embed/d/32/chat?session=abc123'')\<close>
proof -
  have fields: "deploymentId demoState = ''32''" "embedType demoState = Chat"
    by (simp_all add: demoState_def initialState_def emptyConfig_def nullish_def)
  from embed_url_shape [where rt = demoRuntime and st = demoState and pg = demoPage
      and fetch = \<open>respond 200 ''OK'' ''{"sessionId":"abc123"}''\<close> and clearErrors = True,
      OF demo_validate demo_session ToString_string]
  show ?thesis
    by (simp add: demo_validate demo_session fields)
qed

text \<open>
  A response whose session id is an object with a property \<^verbatim>\<open>toString\<close>: the id is
  truthy and is stored, the interpolation throws, and the flow ends with that error and
  without a URL.
\<close>

lemma object_sessionId_no_url:
  assumes "validate rt st = Inr parsedAttributes"
    and "readSession rt (fetch (sessionRequest rt pg st parsedAttributes)) = Inr (JObj kvs)"
    and "map_of kvs ''toString'' \<noteq> None"
  shows "sessionId (fst (generateSession rt pg fetch True st)) = Some (JObj kvs)
       \<and> error (fst (generateSession rt pg fetch True st)) = Some (toPrimitiveError rt)
       \<and> displayEmbedUrl (fst (generateSession rt pg fetch True st)) = None
       \<and> embedUrl (fst (generateSession rt pg fetch True st)) = None
       \<and> success (fst (generateSession rt pg fetch True st)) = None"
proof -
  have "ToString rt (JObj kvs) = Inl (toPrimitiveError rt)"
    using assms(3) by simp
  from generateSession_interpolation_error [where fetch = fetch, OF assms(1,2) this]
  show ?thesis by simp
qed

section \<open>Validation and the request payload\<close>

lemma trim_Nil_iff: "trim s = [] \<longleftrightarrow> (\<forall>c \<in> set s. isWhiteSpace c)"
proof
  assume "trim s = []"
  then have all: "\<forall>c \<in> set (dropWhile isWhiteSpace s). isWhiteSpace c"
    by (simp add: trim_def dropWhile_eq_Nil_conv)
  have "dropWhile isWhiteSpace s = []"
  proof (rule ccontr)
    assume ne: "dropWhile isWhiteSpace s \<noteq> []"
    then have "\<not> isWhiteSpace (hd (dropWhile isWhiteSpace s))"
      by (rule hd_dropWhile)
    with ne all show False
      by (metis hd_in_set)
  qed
  then show "\<forall>c \<in> set s. isWhiteSpace c"
    by (simp add: dropWhile_eq_Nil_conv)
next
  assume "\<forall>c \<in> set s. isWhiteSpace c"
  then show "trim s = []"
    by (auto simp: trim_def dest: set_dropWhileD)
qed

lemma trim_empty: "trim [] = []"
  by (simp add: trim_def)

lemma demoState_fields:
  "deploymentId demoState = ''32''" "userIdType demoState = External"
  "externalId demoState = ''test-user-123''" "internalId demoState = []"
  "embedType demoState = Chat" "dashboardId demoState = []" "userAttributes demoState = []"
  "embedAfterGeneration demoState = True" "error demoState = None"
  "sessionId demoState = None" "embedUrl demoState = None" "displayEmbedUrl demoState = None"
  by (simp_all add: demoState_def initialState_def emptyConfig_def nullish_def orElse_def)

lemma internal_validate: "validate demoRuntime internalState = Inr None"
  by (simp add: validate_def internalState_def demoState_fields trim_def isWhiteSpace_def)

lemma buildRequestBody_external:
  assumes "userIdType st = External"
  shows "map_of (buildRequestBody rt st parsedAttributes) ''externalId'' = Some (JStr (externalId st))"
    and "map_of (buildRequestBody rt st parsedAttributes) ''internalId'' = None"
    and "map_of (buildRequestBody rt st parsedAttributes) ''userAttributes'' = parsedAttributes"
  using assms by (simp_all add: buildRequestBody_def split: option.split)

lemma buildRequestBody_internal:
  assumes "userIdType st = Internal"
  shows "map_of (buildRequestBody rt st parsedAttributes) ''internalId'' = Some (JStr (internalId st))"
    and "map_of (buildRequestBody rt st parsedAttributes) ''externalId'' = None"
    and "map_of (buildRequestBody rt st parsedAttributes) ''userAttributes'' = None"
  using assms by (simp_all add: buildRequestBody_def)

lemma buildRequestBody_creatorMode:
  "map_of (buildRequestBody rt st parsedAttributes) ''creatorMode''
     = (if embedType st = App then Some (JBool True) else None)"
  by (simp add: buildRequestBody_def split: option.split)

lemma buildRequestBody_deploymentId:
  "map_of (buildRequestBody rt st parsedAttributes) ''deploymentId''
     = Some (JNum (parseInt rt (deploymentId st)))"
  by (simp add: buildRequestBody_def)

lemma buildRequestBody_distinct: "distinct (map fst (buildRequestBody rt st parsedAttributes))"
  by (simp add: buildRequestBody_def split: option.split)

lemma sessionRequest_body:
  "requestBody (sessionRequest rt pg st parsedAttributes)
     = JSON_stringify rt (JObj (buildRequestBody rt st parsedAttributes))"
  by (simp add: sessionRequest_def)

text \<open>
  C3. When the local checks pass, exactly one request is sent, its body is the serialised
  \<^verbatim>\<open>requestBody\<close>, and that object carries exactly one identity: with the external
  type it has \<^verbatim>\<open>externalId\<close> and no \<^verbatim>\<open>internalId\<close>; with the internal type it has
  \<^verbatim>\<open>internalId\<close> and neither \<^verbatim>\<open>externalId\<close> nor \<^verbatim>\<open>userAttributes\<close>, whatever
  text the attributes field still holds.
\<close>
theorem payload_one_identity:
  assumes "validate rt st = Inr parsedAttributes"
  shows "(\<exists>req. snd (generateSession rt pg fetch clearErrors st) = [req]
            \<and> requestBody req = JSON_stringify rt (JObj (buildRequestBody rt st parsedAttributes)))
       \<and> (userIdType st = External \<longrightarrow>
            map_of (buildRequestBody rt st parsedAttributes) ''externalId''
              = Some (JStr (externalId st))
          \<and> map_of (buildRequestBody rt st parsedAttributes) ''internalId'' = None)
       \<and> (userIdType st = Internal \<longrightarrow>
            map_of (buildRequestBody rt st parsedAttributes) ''internalId''
              = Some (JStr (internalId st))
          \<and> map_of (buildRequestBody rt st parsedAttributes) ''externalId'' = None
          \<and> map_of (buildRequestBody rt st parsedAttributes) ''userAttributes'' = None)"
proof (intro conjI impI)
  show "\<exists>req. snd (generateSession rt pg fetch clearErrors st) = [req]
          \<and> requestBody req = JSON_stringify rt (JObj (buildRequestBody rt st parsedAttributes))"
    using generateSession_requests [OF assms] by (simp add: sessionRequest_body)
qed (simp_all add: buildRequestBody_external buildRequestBody_internal)

theorem payload_one_identity_witness:
  "validate demoRuntime demoState = Inr None
   \<and> userIdType demoState = External
   \<and> map_of (buildRequestBody demoRuntime demoState None) ''externalId''
       = Some (JStr ''test-user-123'')
   \<and> map_of (buildRequestBody demoRuntime demoState None) ''internalId'' = None
   \<and> validate demoRuntime internalState = Inr None
   \<and> userIdType internalState = Internal
   \<and> userAttributes internalState = ''[{name:city}]''
   \<and> map_of (buildRequestBody demoRuntime internalState None) ''internalId''
       = Some (JStr ''ann@example.com'')
   \<and> map_of (buildRequestBody demoRuntime internalState None) ''externalId'' = None
   \<and> map_of (buildRequestBody demoRuntime internalState None) ''userAttributes'' = None"
proof -
  have fields: "userIdType internalState = Internal" "internalId internalState = ''ann@example.com''"
    "userAttributes internalState = ''[{name:city}]''"
    by (simp_all add: internalState_def)
  from payload_one_identity [OF demo_validate] payload_one_identity [OF internal_validate]
  show ?thesis
    by (simp add: demo_validate internal_validate demoState_fields fields)
qed

text \<open>
  C4. The body of the request that is sent has \<^verbatim>\<open>creatorMode\<close> equal to \<^verbatim>\<open>true\<close>
  when the embed type is app, and has no such property for chat and dashboard.
\<close>
theorem creatorMode_only_for_app:
  assumes "validate rt st = Inr parsedAttributes"
  shows "(\<exists>req. snd (generateSession rt pg fetch clearErrors st) = [req]
            \<and> requestBody req = JSON_stringify rt (JObj (buildRequestBody rt st parsedAttributes)))
       \<and> map_of (buildRequestBody rt st parsedAttributes) ''creatorMode''
           = (if embedType st = App then Some (JBool True) else None)"
  using generateSession_requests [OF assms]
  by (simp add: sessionRequest_body buildRequestBody_creatorMode)

theorem creatorMode_only_for_app_witness:
  "validate demoRuntime internalState = Inr None
   \<and> embedType internalState = App
   \<and> map_of (buildRequestBody demoRuntime internalState None) ''creatorMode'' = Some (JBool True)
   \<and> validate demoRuntime demoState = Inr None
   \<and> embedType demoState = Chat
   \<and> map_of (buildRequestBody demoRuntime demoState None) ''creatorMode'' = None"
proof -
  have fields: "embedType internalState = App"
    by (simp add: internalState_def)
  from creatorMode_only_for_app [OF demo_validate] creatorMode_only_for_app [OF internal_validate]
  show ?thesis
    by (simp add: demo_validate internal_validate demoState_fields fields)
qed


lemma validate_dashboard:
  assumes "embedType st = Dashboard" and "trim (dashboardId st) = []"
  shows "validate rt st = Inl ''Dashboard Public ID is required for dashboard embedding''"
  using assms by (simp add: validate_def)



lemma validate_passes:
  assumes "\<not> (embedType st = Dashboard \<and> trim (dashboardId st) = [])"
    and "trim (if userIdType st = External then externalId st else internalId st) \<noteq> []"
    and "userIdType st = Internal \<or> trim (userAttributes st) = []"
  shows "validate rt st = Inr None"
  using assms by (cases "userIdType st") (auto simp: validate_def)




lemma dashboardState_fields:
  "embedType dashboardState = Dashboard" "dashboardId dashboardState = []"
  "deploymentId dashboardState = ''32''" "userIdType dashboardState = External"
  "externalId dashboardState = ''test-user-123''"
  by (simp_all add: dashboardState_def demoState_fields)




section \<open>Responses without a session id\<close>

lemma readSession_Inr_iff:
  "readSession rt outcome = Inr newSessionId \<longleftrightarrow>
     (\<exists>r sessionData. outcome = Fulfilled r \<and> ok r
        \<and> JSON_parse rt (responseText r) = Inr sessionData
        \<and> getProperty rt sessionData ''sessionId'' = Inr (Some newSessionId)
        \<and> ToBoolean rt newSessionId)"
  by (cases outcome) (auto simp: readSession_def split: sum.splits option.splits)

lemma readSession_missing:
  assumes "ok r" and "JSON_parse rt (responseText r) = Inr sessionData"
    and "sessionData \<noteq> JNull"
    and "\<forall>x. getProperty rt sessionData ''sessionId'' = Inr (Some x) \<longrightarrow> \<not> ToBoolean rt x"
  shows "readSession rt (Fulfilled r)
           = Inl (''Session ID not found in response: '' @ JSON_stringify rt sessionData)"
  using assms by (cases sessionData) (auto simp: readSession_def split: option.splits)

lemma readSession_null:
  assumes "ok r" and "JSON_parse rt (responseText r) = Inr JNull"
  shows "readSession rt (Fulfilled r) = Inl (nullPropertyError rt)"
  using assms by (simp add: readSession_def)

text \<open>
  A 2xx response whose parsed body is not \<^verbatim>\<open>null\<close> and has no truthy
  \<^verbatim>\<open>sessionId\<close>: the error names the missing session id and quotes the body, the
  stored session id stays, and no URL is derived.
\<close>

lemma missing_sessionId_reported:
  assumes "validate rt st = Inr parsedAttributes"
    and "fetch (sessionRequest rt pg st parsedAttributes) = Fulfilled r"
    and "ok r" and "JSON_parse rt (responseText r) = Inr sessionData"
    and "sessionData \<noteq> JNull"
    and "\<forall>x. getProperty rt sessionData ''sessionId'' = Inr (Some x) \<longrightarrow> \<not> ToBoolean rt x"
  shows "error (fst (generateSession rt pg fetch clearErrors st))
           = Some (''Session ID not found in response: '' @ JSON_stringify rt sessionData)
       \<and> sessionId (fst (generateSession rt pg fetch clearErrors st)) = sessionId st
       \<and> displayEmbedUrl (fst (generateSession rt pg fetch clearErrors st))
           = (if clearErrors then None else displayEmbedUrl st)
       \<and> embedUrl (fst (generateSession rt pg fetch clearErrors st))
           = (if clearErrors then None else embedUrl st)"
proof -
  have "readSession rt (fetch (sessionRequest rt pg st parsedAttributes))
          = Inl (''Session ID not found in response: '' @ JSON_stringify rt sessionData)"
    using assms(2-) by (simp add: readSession_missing)
  with assms(1) show ?thesis
    by (simp add: generateSession_failure)
qed

text \<open>
  C10. A submit answered with status 200 and the body \<^verbatim>\<open>null\<close>: the parsed body has
  no \<^verbatim>\<open>sessionId\<close>, the read of the property throws, and the error shown is the
  engine's message for that, which does not contain
  \<^verbatim>\<open>Session ID not found in response\<close>. The stored session id stays and no URL is
  derived.
\<close>

theorem null_body_error_message:
  "ok \<lparr>status = 200, statusText = ''OK'', contentType = Some ''application/json'',
       responseText = ''null''\<rparr>
   \<and> JSON_parse demoRuntime ''null'' = Inr JNull
   \<and> snd (handleSubmit demoRuntime demoPage (respond 200 ''OK'' ''null'') demoState)
       = [sessionRequest demoRuntime demoPage demoState None]
   \<and> error (fst (handleSubmit demoRuntime demoPage (respond 200 ''OK'' ''null'') demoState))
       = Some ''Cannot read properties of null (reading 'sessionId')''
   \<and> \<not> sublist ''Session ID not found in response''
         ''Cannot read properties of null (reading 'sessionId')''
   \<and> sessionId (fst (handleSubmit demoRuntime demoPage (respond 200 ''OK'' ''null'') demoState))
       = sessionId demoState
   \<and> displayEmbedUrl (fst (handleSubmit demoRuntime demoPage (respond 200 ''OK'' ''null'') demoState))
       = None"
proof -
  have p: "JSON_parse demoRuntime ''null'' = Inr JNull"
    by (simp add: demoRuntime_def demoTexts_def)
  have "readSession demoRuntime (respond 200 ''OK'' ''null'' req)
          = Inl ''Cannot read properties of null (reading 'sessionId')''" for req
    by (simp add: respond_def readSession_null ok_def p) (simp add: demoRuntime_def)
  then have "fst (handleSubmit demoRuntime demoPage (respond 200 ''OK'' ''null'') demoState)
      = demoState\<lparr>error := None, success := None, embedUrl := None, displayEmbedUrl := None,
                  error := Some ''Cannot read properties of null (reading 'sessionId')'',
                  loading := False\<rparr>"
    by (simp add: handleSubmit_def generateSession_failure [OF demo_validate])
  moreover have "\<not> sublist ''Session ID not found in response''
         ''Cannot read properties of null (reading 'sessionId')''"
    by code_simp
  ultimately show ?thesis
    by (simp add: p ok_def handleSubmit_def generateSession_requests [OF demo_validate])
qed

section \<open>Refresh\<close>

lemma handleRefresh_passes:
  assumes "deploymentId st \<noteq> []"
    and "(if userIdType st = External then externalId st else internalId st) \<noteq> []"
  shows "handleRefresh rt pg fetch st = generateSession rt pg fetch False st"
  using assms by (cases "userIdType st") (simp_all add: handleRefresh_def)

text \<open>
  C8, as stated, fails: with deployment id and external id filled in, embed type dashboard
  and an empty dashboard id, the refresh is rejected by the dashboard check of the
  generate flow and sends nothing.
\<close>

theorem refresh_checks_dashboardId:
  "deploymentId dashboardState \<noteq> []
   \<and> userIdType dashboardState = External \<and> externalId dashboardState \<noteq> []
   \<and> embedType dashboardState = Dashboard \<and> dashboardId dashboardState = []
   \<and> handleRefresh demoRuntime demoPage (respond 200 ''OK'' ''{}'') dashboardState
       = (dashboardState\<lparr>error := Some ''Dashboard Public ID is required for dashboard embedding''\<rparr>,
          [])"
proof -
  have "validate demoRuntime dashboardState
          = Inl ''Dashboard Public ID is required for dashboard embedding''"
    by (simp add: validate_dashboard dashboardState_fields trim_empty)
  then show ?thesis
    by (simp add: handleRefresh_def dashboardState_fields generateSession_invalid)
qed

text \<open>
  C8, amended. The refresh first requires a non-empty deployment id and a non-empty
  active identity field, with its own messages and without sending anything. Past these
  it is the generate flow on the current fields, run without clearing the messages and
  URLs first: it sends what a submit sends, so every check of the generate flow is made
  again and a failed one leaves only its message; it stores the session id of the
  response, and when that id can be interpolated it displays the same URL as a submit,
  while otherwise it shows the error of the interpolation and leaves the URLs.
\<close>

theorem refresh_runs_generate_flow:
  "(deploymentId st = [] \<longrightarrow>
      handleRefresh rt pg fetch st
        = (st\<lparr>error := Some ''Please fill in Deployment ID before refreshing''\<rparr>, []))
   \<and> (deploymentId st \<noteq> [] \<and> userIdType st = External \<and> externalId st = [] \<longrightarrow>
      handleRefresh rt pg fetch st
        = (st\<lparr>error := Some ''Please fill in External ID before refreshing''\<rparr>, []))
   \<and> (deploymentId st \<noteq> [] \<and> userIdType st = Internal \<and> internalId st = [] \<longrightarrow>
      handleRefresh rt pg fetch st
        = (st\<lparr>error := Some ''Please fill in Internal ID before refreshing''\<rparr>, []))
   \<and> (deploymentId st \<noteq> []
       \<and> (if userIdType st = External then externalId st else internalId st) \<noteq> [] \<longrightarrow>
      handleRefresh rt pg fetch st = generateSession rt pg fetch False st
      \<and> snd (handleRefresh rt pg fetch st) = snd (handleSubmit rt pg fetch st)
      \<and> (\<forall>m. validate rt st = Inl m \<longrightarrow>
            handleRefresh rt pg fetch st = (st\<lparr>error := Some m\<rparr>, []))
      \<and> (\<forall>parsedAttributes newSessionId.
            validate rt st = Inr parsedAttributes
            \<and> readSession rt (fetch (sessionRequest rt pg st parsedAttributes)) = Inr newSessionId
            \<longrightarrow> sessionId (fst (handleRefresh rt pg fetch st)) = Some newSessionId
              \<and> (\<forall>session. ToString rt newSessionId = Inr session \<longrightarrow>
                    displayEmbedUrl (fst (handleRefresh rt pg fetch st))
                      = displayEmbedUrl (fst (handleSubmit rt pg fetch st))
                  \<and> embedUrl (fst (handleRefresh rt pg fetch st))
                      = embedUrl (fst (handleSubmit rt pg fetch st)))
              \<and> (\<forall>m. ToString rt newSessionId = Inl m \<longrightarrow>
                    error (fst (handleRefresh rt pg fetch st)) = Some m
                  \<and> displayEmbedUrl (fst (handleRefresh rt pg fetch st)) = displayEmbedUrl st
                  \<and> embedUrl (fst (handleRefresh rt pg fetch st)) = embedUrl st)))"
proof (intro conjI impI allI)
  assume "deploymentId st = []"
  then show "handleRefresh rt pg fetch st
        = (st\<lparr>error := Some ''Please fill in Deployment ID before refreshing''\<rparr>, [])"
    by (simp add: handleRefresh_def)
next
  assume "deploymentId st \<noteq> [] \<and> userIdType st = External \<and> externalId st = []"
  then show "handleRefresh rt pg fetch st
        = (st\<lparr>error := Some ''Please fill in External ID before refreshing''\<rparr>, [])"
    by (simp add: handleRefresh_def)
next
  assume "deploymentId st \<noteq> [] \<and> userIdType st = Internal \<and> internalId st = []"
  then show "handleRefresh rt pg fetch st
        = (st\<lparr>error := Some ''Please fill in Internal ID before refreshing''\<rparr>, [])"
    by (simp add: handleRefresh_def)
next
  assume a: "deploymentId st \<noteq> []
       \<and> (if userIdType st = External then externalId st else internalId st) \<noteq> []"
  then show eq: "handleRefresh rt pg fetch st = generateSession rt pg fetch False st"
    by (simp add: handleRefresh_passes)
  show "snd (handleRefresh rt pg fetch st) = snd (handleSubmit rt pg fetch st)"
    by (cases "validate rt st")
       (simp_all add: eq handleSubmit_def generateSession_invalid generateSession_requests)
  {
    fix m
    assume "validate rt st = Inl m"
    then show "handleRefresh rt pg fetch st = (st\<lparr>error := Some m\<rparr>, [])"
      by (simp add: eq generateSession_invalid)
  }
  {
    fix parsedAttributes newSessionId
    assume s: "validate rt st = Inr parsedAttributes
            \<and> readSession rt (fetch (sessionRequest rt pg st parsedAttributes)) = Inr newSessionId"
    then have v: "validate rt st = Inr parsedAttributes"
      and r: "readSession rt (fetch (sessionRequest rt pg st parsedAttributes)) = Inr newSessionId"
      by simp_all
    show "sessionId (fst (handleRefresh rt pg fetch st)) = Some newSessionId"
    proof (cases "ToString rt newSessionId")
      case (Inl m)
      then show ?thesis
        by (simp add: eq generateSession_interpolation_error [where fetch = fetch, OF v r])
    next
      case (Inr session)
      then show ?thesis
        by (simp add: eq generateSession_success [where fetch = fetch, OF v r Inr buildEmbedUrl_Inr [OF Inr]])
    qed
    {
      fix session
      assume t: "ToString rt newSessionId = Inr session"
      show "displayEmbedUrl (fst (handleRefresh rt pg fetch st))
              = displayEmbedUrl (fst (handleSubmit rt pg fetch st))"
        and "embedUrl (fst (handleRefresh rt pg fetch st))
              = embedUrl (fst (handleSubmit rt pg fetch st))"
        by (simp_all add: eq handleSubmit_def
            generateSession_success [where fetch = fetch, OF v r t buildEmbedUrl_Inr [OF t]])
    }
    {
      fix m
      assume t: "ToString rt newSessionId = Inl m"
      show "error (fst (handleRefresh rt pg fetch st)) = Some m"
        and "displayEmbedUrl (fst (handleRefresh rt pg fetch st)) = displayEmbedUrl st"
        and "embedUrl (fst (handleRefresh rt pg fetch st)) = embedUrl st"
        by (simp_all add: eq generateSession_interpolation_error [where fetch = fetch, OF v r t])
    }
  }
qed

theorem refresh_runs_generate_flow_witness:
  \<open>deploymentId blankState = []
   \<and> handleRefresh demoRuntime demoPage (respond 200 ''OK'' ''{"sessionId":"abc123"}'') blankState
       = (blankState\<lparr>error := Some ''Please fill in Deployment ID before refreshing''\<rparr>, [])
   \<and> deploymentId demoState \<noteq> [] \<and> userIdType demoState = External \<and> externalId demoState \<noteq> []
   \<and> validate demoRuntime demoState = Inr None
   \<and> readSession demoRuntime (respond 200 ''OK'' ''{"sessionId":"abc123"}''
         (sessionRequest demoRuntime demoPage demoState None)) = Inr (JStr ''abc123'')
   \<and> sessionId (fst (handleRefresh demoRuntime demoPage
         (respond 200 ''OK'' ''{"sessionId":"abc123"}'') demoState)) = Some (JStr ''abc123'')
   \<and> displayEmbedUrl (fst (handleRefresh demoRuntime demoPage
         (respond 200 ''OK'' ''{"sessionId":"abc123"}'') demoState))
       = Some ''https://cube.example.com/embed/d/32/chat?session=abc123''\<close>
proof -
  have b: "deploymentId blankState = []"
    by (simp add: blankState_def)
  have d: "deploymentId demoState \<noteq> []
       \<and> (if userIdType demoState = External then externalId demoState else internalId demoState) \<noteq> []"
    by (simp add: demoState_fields)
  have u: \<open>displayEmbedUrl (fst (handleSubmit demoRuntime demoPage
         (respond 200 ''OK'' ''{"sessionId":"abc123"}'') demoState))
       = Some ''https://cube.example.com/embed/d/32/chat?session=abc123''\<close>
    by (simp add: handleSubmit_def
        generateSession_success [where fetch = \<open>respond 200 ''OK'' ''{"sessionId":"abc123"}''\<close>,
          OF demo_validate demo_session ToString_string buildEmbedUrl_Inr [OF ToString_string]]
        demoState_fields demoPage_def)
  from refresh_runs_generate_flow [where rt = demoRuntime and st = blankState and pg = demoPage
      and fetch = \<open>respond 200 ''OK'' ''{"sessionId":"abc123"}''\<close>] b
  have r1: \<open>handleRefresh demoRuntime demoPage (respond 200 ''OK'' ''{"sessionId":"abc123"}'') blankState
       = (blankState\<lparr>error := Some ''Please fill in Deployment ID before refreshing''\<rparr>, [])\<close>
    by blast
  from refresh_runs_generate_flow [where rt = demoRuntime and st = demoState and pg = demoPage
      and fetch = \<open>respond 200 ''OK'' ''{"sessionId":"abc123"}''\<close>] d demo_validate
    demo_session [of "sessionRequest demoRuntime demoPage demoState None"]
    ToString_string [of demoRuntime "''abc123''"]
  have r2: \<open>sessionId (fst (handleRefresh demoRuntime demoPage
         (respond 200 ''OK'' ''{"sessionId":"abc123"}'') demoState)) = Some (JStr ''abc123'')
     \<and> displayEmbedUrl (fst (handleRefresh demoRuntime demoPage
         (respond 200 ''OK'' ''{"sessionId":"abc123"}'') demoState))
       = displayEmbedUrl (fst (handleSubmit demoRuntime demoPage
         (respond 200 ''OK'' ''{"sessionId":"abc123"}'') demoState))\<close>
    by blast
  show ?thesis
    using r1 r2 by (simp add: demoState_fields demo_validate demo_session u b)
qed

section \<open>Start of the relay\<close>

lemma startup_missing_key:
  assumes "falsy (env ''API_KEY'')"
  shows "startup env = Exit
           [''ERROR: API_KEY environment variable is required'',
            ''Please set it in a .env file or as an environment variable:'',
            ''  Create a .env file with: API_KEY=your-api-key-here'',
            ''  Or set it inline: API_KEY=your-api-key-here yarn start''] 1"
  using assms by (simp add: startup_def Let_def)

lemma startup_missing_url:
  assumes "\<not> falsy (env ''API_KEY'')" and "falsy (env ''CUBE_API_URL'')"
  shows "startup env = Exit
           [''ERROR: CUBE_API_URL environment variable is required'',
            ''Please set it in a .env file or as an environment variable:'',
            ''  Create a .env file with: CUBE_API_URL=https://your-cube-instance.com'',
            ''  Or set it inline: CUBE_API_URL=https://your-cube-instance.com yarn start''] 1"
  using assms by (simp add: startup_def Let_def)

lemma startup_started:
  assumes "env ''API_KEY'' = Some key" and "key \<noteq> []"
    and "env ''CUBE_API_URL'' = Some base" and "base \<noteq> []"
  shows "startup env =
           Started \<lparr> PORT = (if falsy (env ''PORT'') then PortDefault 3001
                             else PortEnv (case env ''PORT'' of Some p \<Rightarrow> p | None \<Rightarrow> [])),
                     CUBE_API_URL = base, API_KEY = key \<rparr>"
  using assms by (simp add: startup_def Let_def falsy_def)

text \<open>
  C9, as stated, fails for the port: with the key and the base URL set and no
  \<^verbatim>\<open>PORT\<close>, the process starts and listens on 3001.
\<close>

theorem startup_without_port:
  "envWithoutPort ''PORT'' = None
   \<and> startup envWithoutPort =
       Started \<lparr> PORT = PortDefault 3001, CUBE_API_URL = ''https://cube.example.com'',
                 API_KEY = ''secret-key'' \<rparr>"
  by (simp add: envWithoutPort_def startup_def falsy_def)

text \<open>
  C9, amended. The key and the base URL are required: if \<^verbatim>\<open>API_KEY\<close> is unset or empty
  the process exits with code 1 after an error that names it; otherwise, if
  \<^verbatim>\<open>CUBE_API_URL\<close> is unset or empty, it exits with code 1 after an error that names
  that. With both set it starts with exactly these two values, and the port is the
  \<^verbatim>\<open>PORT\<close> of the environment when that is set and non-empty, 3001 otherwise.
\<close>

theorem startup_requirements:
  "(falsy (env ''API_KEY'') \<longrightarrow>
      (\<exists>more. startup env = Exit (''ERROR: API_KEY environment variable is required'' # more) 1))
   \<and> (\<not> falsy (env ''API_KEY'') \<and> falsy (env ''CUBE_API_URL'') \<longrightarrow>
      (\<exists>more. startup env
                = Exit (''ERROR: CUBE_API_URL environment variable is required'' # more) 1))
   \<and> (\<not> falsy (env ''API_KEY'') \<and> \<not> falsy (env ''CUBE_API_URL'') \<longrightarrow>
      (\<exists>cfg. startup env = Started cfg
         \<and> env ''API_KEY'' = Some (API_KEY cfg)
         \<and> env ''CUBE_API_URL'' = Some (CUBE_API_URL cfg)
         \<and> (falsy (env ''PORT'') \<longrightarrow> PORT cfg = PortDefault 3001)
         \<and> (\<forall>p. env ''PORT'' = Some p \<and> p \<noteq> [] \<longrightarrow> PORT cfg = PortEnv p)))"
proof (intro conjI impI)
  assume "falsy (env ''API_KEY'')"
  then show "\<exists>more. startup env
                = Exit (''ERROR: API_KEY environment variable is required'' # more) 1"
    by (simp add: startup_missing_key)
next
  assume "\<not> falsy (env ''API_KEY'') \<and> falsy (env ''CUBE_API_URL'')"
  then show "\<exists>more. startup env
                = Exit (''ERROR: CUBE_API_URL environment variable is required'' # more) 1"
    by (simp add: startup_missing_url)
next
  assume "\<not> falsy (env ''API_KEY'') \<and> \<not> falsy (env ''CUBE_API_URL'')"
  then obtain key base where "env ''API_KEY'' = Some key" "key \<noteq> []"
    "env ''CUBE_API_URL'' = Some base" "base \<noteq> []"
    by (auto simp: falsy_def split: option.splits)
  then show "\<exists>cfg. startup env = Started cfg
         \<and> env ''API_KEY'' = Some (API_KEY cfg)
         \<and> env ''CUBE_API_URL'' = Some (CUBE_API_URL cfg)
         \<and> (falsy (env ''PORT'') \<longrightarrow> PORT cfg = PortDefault 3001)
         \<and> (\<forall>p. env ''PORT'' = Some p \<and> p \<noteq> [] \<longrightarrow> PORT cfg = PortEnv p)"
    by (auto simp: startup_started falsy_def)
qed

theorem startup_requirements_witness:
  "falsy (envWithoutKey ''API_KEY'')
   \<and> (\<exists>more. startup envWithoutKey
               = Exit (''ERROR: API_KEY environment variable is required'' # more) 1)
   \<and> \<not> falsy (envWithoutUrl ''API_KEY'') \<and> falsy (envWithoutUrl ''CUBE_API_URL'')
   \<and> (\<exists>more. startup envWithoutUrl
               = Exit (''ERROR: CUBE_API_URL environment variable is required'' # more) 1)
   \<and> \<not> falsy (envWithoutPort ''API_KEY'') \<and> \<not> falsy (envWithoutPort ''CUBE_API_URL'')
   \<and> falsy (envWithoutPort ''PORT'')
   \<and> (\<exists>cfg. startup envWithoutPort = Started cfg \<and> PORT cfg = PortDefault 3001
          \<and> API_KEY cfg = ''secret-key'')"
proof -
  have k: "falsy (envWithoutKey ''API_KEY'')"
    by (simp add: envWithoutKey_def falsy_def)
  have u: "\<not> falsy (envWithoutUrl ''API_KEY'') \<and> falsy (envWithoutUrl ''CUBE_API_URL'')"
    by (simp add: envWithoutUrl_def falsy_def)
  have p: "\<not> falsy (envWithoutPort ''API_KEY'') \<and> \<not> falsy (envWithoutPort ''CUBE_API_URL'')"
    "falsy (envWithoutPort ''PORT'')" "envWithoutPort ''API_KEY'' = Some ''secret-key''"
    by (simp_all add: envWithoutPort_def falsy_def)
  from startup_requirements [of envWithoutKey] k
  have "\<exists>more. startup envWithoutKey
               = Exit (''ERROR: API_KEY environment variable is required'' # more) 1"
    by blast
  moreover from startup_requirements [of envWithoutUrl] u
  have "\<exists>more. startup envWithoutUrl
               = Exit (''ERROR: CUBE_API_URL environment variable is required'' # more) 1"
    by blast
  moreover from startup_requirements [of envWithoutPort] p
  have "\<exists>cfg. startup envWithoutPort = Started cfg \<and> PORT cfg = PortDefault 3001
          \<and> API_KEY cfg = ''secret-key''"
    by force
  ultimately show ?thesis
    using k u p by blast
qed

section \<open>The relay handler\<close>


lemma handler_rejected:
  assumes "fetch (upstreamRequest rt cfg body) = Rejected m"
  shows "generateSessionHandler rt cfg fetch body =
           (\<lparr> res_status = 500, res_headers = [],
              res_body = Json (JObj [(''error'', JStr ''Failed to proxy request''),
                                     (''message'', JStr m)]) \<rparr>,
            [upstreamRequest rt cfg body])"
  using assms by (simp add: generateSessionHandler_def)













section \<open>The relay when the upstream call throws\<close>

text \<open>
  When the call throws, the answer is the status 500 and an object of two properties:
  a fixed text and the message of the error, whatever that message holds.
\<close>

lemma relay_failure_response:
  assumes "fetch (upstreamRequest rt cfg body) = Rejected m"
  shows "res_status (fst (generateSessionHandler rt cfg fetch body)) = 500
       \<and> res_body (fst (generateSessionHandler rt cfg fetch body))
           = Json (JObj [(''error'', JStr ''Failed to proxy request''), (''message'', JStr m)])"
  using assms by (simp add: handler_rejected)

lemma twoLineKey_rejected:
  \<open>nodeFetch network (upstreamRequest rt twoLineKeyConfig body)
     = Rejected (''Headers.append: "Api-Key '' @ twoLineKey @ ''" is an invalid header value.'')\<close>
  by (simp add: nodeFetch_def upstreamRequest_def twoLineKeyConfig_def twoLineKey_def
      headerValueNormalize_def isHttpWhitespace_def isValidHeaderValue_def)

text \<open>
  C6. The relay started with a key of two lines, run on Node.js: the process starts, the
  call of \<^verbatim>\<open>fetch\<close> throws on the \<^verbatim>\<open>Authorization\<close> value, the answer has status 500
  and a JSON error body, and the \<^verbatim>\<open>message\<close> of that body contains the key.
\<close>

theorem key_in_error_response:
  \<open>startup [''API_KEY'' \<mapsto> twoLineKey, ''CUBE_API_URL'' \<mapsto> ''https://cube.example.com'']
     = Started twoLineKeyConfig
   \<and> fst (generateSessionHandler demoRuntime twoLineKeyConfig
            (nodeFetch (respond 200 ''OK'' ''{"sessionId":"abc123"}'')) demoBody)
       = \<lparr> res_status = 500, res_headers = [],
           res_body = Json (JObj
             [(''error'', JStr ''Failed to proxy request''),
              (''message'', JStr (''Headers.append: "Api-Key '' @ twoLineKey
                                  @ ''" is an invalid header value.''))]) \<rparr>
   \<and> sublist (API_KEY twoLineKeyConfig)
        (''Headers.append: "Api-Key '' @ twoLineKey @ ''" is an invalid header value.'')\<close>
proof -
  have key: "API_KEY twoLineKeyConfig = twoLineKey"
    by (simp add: twoLineKeyConfig_def)
  have \<open>startup [''API_KEY'' \<mapsto> twoLineKey, ''CUBE_API_URL'' \<mapsto> ''https://cube.example.com'']
     = Started twoLineKeyConfig\<close>
    by (simp add: startup_def falsy_def twoLineKeyConfig_def twoLineKey_def)
  moreover have \<open>sublist (API_KEY twoLineKeyConfig)
        (''Headers.append: "Api-Key '' @ twoLineKey @ ''" is an invalid header value.'')\<close>
    by (subst key) (rule sublist_appendI)
  ultimately show ?thesis
    by (simp add: handler_rejected twoLineKey_rejected)
qed

section \<open>Saving and loading the configuration\<close>

lemma loadSavedConfig_saveConfig:
  assumes "parseConfig cj (stringifyConfig cj (configOf st)) = Inr (configOf st)"
    and "stringifyConfig cj (configOf st) \<noteq> []"
  shows "loadSavedConfig cj (saveConfig cj st (Items m)) = migrate (configOf st)"
  using assms by (simp add: loadSavedConfig_def saveConfig_def)

lemma migrate_configOf:
  "migrate (configOf st) =
     \<lparr> saved_deploymentId = Some (deploymentId st),
       saved_userIdType = Some (userIdType st),
       saved_externalId = Some (externalId st),
       saved_internalId = Some (internalId st),
       saved_embedType = Some (embedType st),
       saved_dashboardId = Some (dashboardId st),
       saved_userAttributes = Some (userAttributes st),
       saved_embedAfterGeneration = Some (embedAfterGeneration st),
       saved_menuCollapsed = Some (menuCollapsed st) \<rparr>"
  by (simp add: migrate_def configOf_def)

lemma migrate_home:
  "saved_embedType (migrate (config\<lparr>saved_embedType := Some Home\<rparr>)) = Some App"
  by (simp add: migrate_def)

text \<open>
  After a save that succeeded, the next launch has every saved field as it was, except
  that an empty external id comes back as \<^verbatim>\<open>test-user-123\<close>.
\<close>

lemma mount_saveConfig:
  assumes "parseConfig cj (stringifyConfig cj (configOf st)) = Inr (configOf st)"
    and "stringifyConfig cj (configOf st) \<noteq> []"
  shows "mount cj (saveConfig cj st (Items m)) =
           \<lparr> deploymentId = deploymentId st,
             userIdType = userIdType st,
             externalId = (if externalId st = [] then ''test-user-123'' else externalId st),
             internalId = internalId st,
             embedType = embedType st,
             dashboardId = dashboardId st,
             userAttributes = userAttributes st,
             loading = False, error = None, success = None, sessionId = None,
             embedUrl = None, displayEmbedUrl = None, iframeError = None,
             embedAfterGeneration = embedAfterGeneration st,
             menuCollapsed = menuCollapsed st \<rparr>"
  by (simp add: mount_def loadSavedConfig_saveConfig [OF assms] migrate_configOf
      initialState_def orElse_def nullish_def)

text \<open>
  C7. The configuration with an emptied external id is saved, and the text in the storage
  parses back to the same object; yet the component then mounts with the external id
  \<^verbatim>\<open>test-user-123\<close>. The other fields are restored.
\<close>

theorem empty_externalId_not_restored:
  "externalId clearedState = []
   \<and> saveConfig tableJson clearedState (Items Map.empty) = Items [STORAGE_KEY \<mapsto> clearedText]
   \<and> parseConfig tableJson clearedText = Inr (configOf clearedState)
   \<and> externalId (mount tableJson (saveConfig tableJson clearedState (Items Map.empty))
                   :: nat option app_state) = ''test-user-123''
   \<and> (mount tableJson (saveConfig tableJson clearedState (Items Map.empty)))
         \<lparr>externalId := []\<rparr> = clearedState"
proof -
  have t: "stringifyConfig tableJson (configOf clearedState) = clearedText"
    "parseConfig tableJson clearedText = Inr (configOf clearedState)"
    by (simp_all add: tableJson_def)
  have n: "clearedText \<noteq> []"
    by (simp add: clearedText_def)
  have s: "saveConfig tableJson clearedState (Items Map.empty) = Items [STORAGE_KEY \<mapsto> clearedText]"
    by (simp add: saveConfig_def t)
  have e: "externalId clearedState = []"
    by (simp add: clearedState_def)
  have "mount tableJson (saveConfig tableJson clearedState (Items Map.empty))
          = clearedState\<lparr>externalId := ''test-user-123''\<rparr>"
    by (simp add: mount_saveConfig t n)
       (simp add: clearedState_def demoState_def initialState_def emptyConfig_def
          orElse_def nullish_def)
  then show ?thesis
    using s e t by simp
qed

end
